theory Spec2Isabelle
  imports Complex_Main
begin

section \<open>Arrays\<close>

text \<open>
  The programs compute with numpy arrays of floats. The model reads a float as a real
  number (no rounding), a two-dimensional array as the list of its rows, and a Stokes
  vector \<open>[[I], [Q], [U], [V]]\<close> as an array of four rows of one entry.

  A list of rows does not record the number of columns of an array without rows
  (\<open>np.empty(shape=[0, 4])\<close>), so the operations that need the number of columns of an
  operand take it as their first argument: it is the static shape of the array in the
  source.
\<close>

type_synonym vec = "real list"
type_synonym mat = "real list list"

datatype error = LinAlgError | ValueError

definition col :: "mat \<Rightarrow> nat \<Rightarrow> vec" where
  "col A k = map (\<lambda>r. r ! k) A"

text \<open>\<open>np.transpose(A)\<close> for an array \<open>A\<close> of \<open>w\<close> columns.\<close>

definition transpose_w :: "nat \<Rightarrow> mat \<Rightarrow> mat" where
  "transpose_w w A = map (col A) [0..<w]"

definition dot :: "vec \<Rightarrow> vec \<Rightarrow> real" where
  "dot u v = sum_list (map2 (*) u v)"

text \<open>\<open>X @ Y\<close> for an array \<open>Y\<close> of \<open>w\<close> columns.\<close>

definition matmul_w :: "nat \<Rightarrow> mat \<Rightarrow> mat \<Rightarrow> mat" where
  "matmul_w w X Y = map (\<lambda>r. map (dot r) (transpose_w w Y)) X"

text \<open>\<open>c * X\<close> for a scalar \<open>c\<close>.\<close>

definition smult :: "real \<Rightarrow> mat \<Rightarrow> mat" where
  "smult c X = map (map ((*) c)) X"

text \<open>\<open>np.radians\<close>, \<open>math.radians\<close>, \<open>np.degrees\<close> and \<open>math.degrees\<close>.\<close>

definition radians :: "real \<Rightarrow> real" where
  "radians x = x * pi / 180"

definition degrees :: "real \<Rightarrow> real" where
  "degrees x = x * 180 / pi"

text \<open>\<open>np.repeat(a, 2, axis=0)\<close> and \<open>np.mean\<close> of a one-dimensional array.\<close>

definition repeat2 :: "'a list \<Rightarrow> 'a list" where
  "repeat2 xs = concat (map (\<lambda>a. [a, a]) xs)"

definition mean :: "vec \<Rightarrow> real" where
  "mean xs = sum_list xs / real (length xs)"

text \<open>
  \<open>np.reshape(stokes, (4, 1))\<close>: a column of the four entries; numpy raises
  \<open>ValueError\<close> when the array does not have four entries.
\<close>

definition reshape_4_1 :: "vec \<Rightarrow> error + mat" where
  "reshape_4_1 s = (if length s = 4 then Inr (map (\<lambda>a. [a]) s) else Inl ValueError)"

subsection \<open>Matrix inversion\<close>

text \<open>
  \<open>numpy.linalg.inv\<close> returns the inverse of a square matrix and raises \<open>LinAlgError\<close>
  when the matrix is singular. Over the reals the matrix is singular when its
  determinant is zero; the determinant is expanded along the first row, and the inverse
  is the transposed matrix of cofactors divided by the determinant.
\<close>

definition del :: "nat \<Rightarrow> 'a list \<Rightarrow> 'a list" where
  "del k xs = take k xs @ drop (Suc k) xs"

function det :: "mat \<Rightarrow> real" where
  "det [] = 1"
| "det (r # rs) = (\<Sum>k\<leftarrow>[0..<length r]. (- 1) ^ k * r ! k * det (map (del k) rs))"
  by pat_completeness auto
termination
  by (relation "measure length") auto

declare det.simps(2) [simp del]

definition minor :: "nat \<Rightarrow> nat \<Rightarrow> mat \<Rightarrow> mat" where
  "minor i j M = map (del j) (del i M)"

definition adjugate :: "mat \<Rightarrow> mat" where
  "adjugate M =
     map (\<lambda>i. map (\<lambda>j. (- 1) ^ (i + j) * det (minor j i M)) [0..<length M]) [0..<length M]"

definition inv_np :: "mat \<Rightarrow> error + mat" where
  "inv_np M = (if det M = 0 then Inl LinAlgError else Inr (smult (1 / det M) (adjugate M)))"

definition identity4 :: mat where
  "identity4 = [[1, 0, 0, 0], [0, 1, 0, 0], [0, 0, 1, 0], [0, 0, 0, 1]]"

section \<open>The numeric variant (\<open>manual_mm.py\<close>)\<close>

text \<open>\<open>m(theta, phi)\<close>.\<close>

definition m :: "real \<Rightarrow> real \<Rightarrow> mat" where
  "m theta phi =
     [[1, - cos (2 * theta), 0, 0],
      [- cos (2 * theta), 1, 0, 0],
      [0, 0, sin (2 * theta) * cos phi, sin (2 * theta) * sin phi],
      [0, 0, - sin (2 * theta) * sin theta, sin (2 * theta) * cos phi]]"

text \<open>\<open>t(angle)\<close>.\<close>

definition t :: "real \<Rightarrow> mat" where
  "t angle =
     [[1, 0, 0, 0],
      [0, cos (4 * angle), sin (4 * angle), 0],
      [0, - sin (4 * angle), cos (4 * angle), 0],
      [0, 0, 0, 1]]"

definition m_woll_pos :: mat where
  "m_woll_pos = m (pi / 2) 0"

definition m_woll_neg :: mat where
  "m_woll_neg = m pi 0"

text \<open>\<open>wollaston(stokes)\<close>; \<open>stokes\<close> is an array of shape (4, 1).\<close>

definition wollaston :: "mat \<Rightarrow> mat list" where
  "wollaston stokes =
     (let pos = smult 0.5 (matmul_w 1 m_woll_pos stokes);
          neg = smult 0.5 (matmul_w 1 m_woll_neg stokes)
      in [pos, neg])"

text \<open>
  \<open>on_sky(values)\<close>. A sample \<open>values[j]\<close> is the list of the intensity of the positive
  beam, the intensity of the negative beam, the angle of the half-wave plate and the
  parallactic angle. The loop appends to \<open>i\<close> and \<open>m_system\<close>, which start as arrays of
  shapes (0, 1) and (0, 4); the last line inverts the normal matrix.
\<close>

type_synonym sample = "real \<times> real \<times> real \<times> real"

fun on_sky_loop :: "sample list \<Rightarrow> mat \<times> mat \<Rightarrow> mat \<times> mat" where
  "on_sky_loop [] (i, m_system) = (i, m_system)"
| "on_sky_loop ((i1, i2, hwp, sky) # vals) (i, m_system) =
     (let row1 = smult 0.5 (matmul_w 4 (matmul_w 4 m_woll_pos (t hwp)) (t sky));
          row2 = smult 0.5 (matmul_w 4 (matmul_w 4 m_woll_neg (t hwp)) (t sky));
          i = i @ [[i1]];
          m_system = m_system @ [row1 ! 0];
          i = i @ [[i2]];
          m_system = m_system @ [row2 ! 0]
      in on_sky_loop vals (i, m_system))"

definition on_sky :: "sample list \<Rightarrow> error + mat" where
  "on_sky vals =
     (let (i, m_system) = on_sky_loop vals ([], [])
      in case inv_np (matmul_w 4 (transpose_w 4 m_system) m_system) of
           Inl e \<Rightarrow> Inl e
         | Inr n \<Rightarrow> Inr (matmul_w 1 (matmul_w (length m_system) n (transpose_w 4 m_system)) i))"

text \<open>
  The system matrix of one beam at the angles \<open>hwp\<close> and \<open>sky\<close>, the expression of
  \<open>row1\<close> and \<open>row2\<close> in \<open>on_sky\<close>, and the forward model of the round trip: the
  intensities of the two beams are the first components of the system matrices applied
  to the Stokes vector.
\<close>

definition system_matrix :: "mat \<Rightarrow> real \<Rightarrow> real \<Rightarrow> mat" where
  "system_matrix woll hwp sky = smult 0.5 (matmul_w 4 (matmul_w 4 woll (t hwp)) (t sky))"

definition forward :: "mat \<Rightarrow> real \<Rightarrow> real \<Rightarrow> real \<times> real" where
  "forward stokes hwp sky =
     (matmul_w 1 (system_matrix m_woll_pos hwp sky) stokes ! 0 ! 0,
      matmul_w 1 (system_matrix m_woll_neg hwp sky) stokes ! 0 ! 0)"

section \<open>The variants on the library (\<open>astropy_mm.py\<close>, \<open>final_offline_mm.py\<close>)\<close>

text \<open>
  These variants build their matrices with the library \<open>pyMuellerMat\<close>, which is not
  part of the repository. The model keeps the properties that the programs store into
  the elements of a system in a record, and takes \<open>evaluate\<close>, the library's evaluation
  of a system at its current properties (an array of shape (4, 4)), as a parameter.
\<close>

datatype beam = Beam_o | Beam_e

record properties =
  WollastonPrism_beam :: beam
  HalfwaveRetarder_theta :: real
  Rotator_pa :: real

record master_properties = properties +
  derotator_theta :: real
  derotator_epsilon :: real
  derotator_phi :: real
  m3_theta :: real
  m3_epsilon :: real
  m3_phi :: real

text \<open>
  \<open>on_sky(values)\<close>, the same in both variants, on a system of a Wollaston prism, a
  half-wave plate and a rotator that the function builds itself; \<open>props\<close> stands for
  the properties of the new system, which the library chooses.
\<close>

fun on_sky_lib_loop ::
  "(properties \<Rightarrow> mat) \<Rightarrow> sample list \<Rightarrow> properties \<times> mat \<times> mat \<Rightarrow> properties \<times> mat \<times> mat"
where
  "on_sky_lib_loop evaluate [] (props, i, m_system) = (props, i, m_system)"
| "on_sky_lib_loop evaluate ((i1, i2, hwp, sky) # vals) (props, i, m_system) =
     (let props = props\<lparr>HalfwaveRetarder_theta := hwp\<rparr>;
          props = props\<lparr>Rotator_pa := sky\<rparr>;
          props = props\<lparr>WollastonPrism_beam := Beam_o\<rparr>;
          row1 = evaluate props;
          props = props\<lparr>WollastonPrism_beam := Beam_e\<rparr>;
          row2 = evaluate props;
          i = i @ [[i1]];
          m_system = m_system @ [row1 ! 0];
          i = i @ [[i2]];
          m_system = m_system @ [row2 ! 0]
      in on_sky_lib_loop evaluate vals (props, i, m_system))"

definition on_sky_lib :: "(properties \<Rightarrow> mat) \<Rightarrow> properties \<Rightarrow> sample list \<Rightarrow> error + mat" where
  "on_sky_lib evaluate props vals =
     (let (props, i, m_system) = on_sky_lib_loop evaluate vals (props, [], [])
      in case inv_np (matmul_w 4 (transpose_w 4 m_system) m_system) of
           Inl e \<Rightarrow> Inl e
         | Inr n \<Rightarrow> Inr (matmul_w 1 (matmul_w (length m_system) n (transpose_w 4 m_system)) i))"

text \<open>
  Option b of \<open>main\<close>, the same in both variants: every pass of the input loop reads
  two intensities and two angles, asked for in degrees, and appends
  \<open>[I_1, I_2, hwp, sky]\<close> to \<open>values\<close>; then \<open>on_sky(values)\<close> is printed. The argument
  lists the numbers typed in, four for each pass.
\<close>

definition main_b_values :: "(real \<times> real \<times> real \<times> real) list \<Rightarrow> sample list" where
  "main_b_values typed =
     map (\<lambda>(I_1, I_2, hwp_deg, sky_deg). (I_1, I_2, radians hwp_deg, radians sky_deg)) typed"

definition main_b ::
  "(properties \<Rightarrow> mat) \<Rightarrow> properties \<Rightarrow> (real \<times> real \<times> real \<times> real) list \<Rightarrow> error + mat" where
  "main_b evaluate props typed = on_sky_lib evaluate props (main_b_values typed)"

subsection \<open>The calibration targets of \<open>final_offline_mm.py\<close>\<close>

definition keck :: real where
  "keck = radians 19.8260"

definition ra :: mat where
  "ra = [[4, 14, 50.2], [4, 13, 47.3], [4, 22, 53.3]]"

definition dec :: mat where
  "dec = [[37, 35, 54], [37, 9, 32], [27, 30, 18]]"

definition rad :: vec where
  "rad = map (\<lambda>r. radians (15 * (r ! 0 + r ! 1 / 60 + r ! 2 / 3600))) ra"

definition decd :: vec where
  "decd = map (\<lambda>r. radians (r ! 0 + r ! 1 / 60 + r ! 2 / 3600)) dec"

definition p :: vec where
  "p = [0.0061, 0.0142, 0.0157]"

subsection \<open>The fit function \<open>system\<close>\<close>

text \<open>
  \<open>system(x, dd, dr, md, mr)\<close> works on the global system \<open>master_sys_mm\<close>, whose
  properties it receives and returns here. The arithmetic of numpy on arrays does not
  raise; the only failure is the one of \<open>np.reshape\<close>. The loop runs over
  \<open>zip(enumerate(x), angles, altitudes)\<close>.
\<close>

fun system_loop ::
  "(master_properties \<Rightarrow> mat) \<Rightarrow> ((nat \<times> vec) \<times> real \<times> real) list \<Rightarrow> master_properties \<Rightarrow> vec
     \<Rightarrow> error + (vec \<times> master_properties)"
where
  "system_loop evaluate [] props I = Inr (I, props)"
| "system_loop evaluate (((n, stokes), pa, alt) # rest) props I =
     (let props = props\<lparr>Rotator_pa := pa\<rparr>;
          props = props\<lparr>m3_theta := alt\<rparr>;
          props = (if n mod 2 = 0 then props\<lparr>WollastonPrism_beam := Beam_o\<rparr>
                   else props\<lparr>WollastonPrism_beam := Beam_e\<rparr>)
      in case reshape_4_1 stokes of
           Inl e \<Rightarrow> Inl e
         | Inr s \<Rightarrow> system_loop evaluate rest props (I @ [matmul_w 1 (evaluate props) s ! 0 ! 0]))"

definition system ::
  "(master_properties \<Rightarrow> mat) \<Rightarrow> master_properties \<Rightarrow> mat \<Rightarrow> real \<Rightarrow> real \<Rightarrow> real \<Rightarrow> real
     \<Rightarrow> error + (vec \<times> master_properties)"
where
  "system evaluate props x dd dr md mr =
     (let angles = map (\<lambda>(r, d). degrees (arctan (sin r / (cos d * tan keck - sin d * cos r))))
                     (zip rad decd);
          altitudes = map (\<lambda>(r, d). degrees (arcsin (sin keck * sin d + cos keck * cos d * cos r)))
                        (zip rad decd);
          props = props\<lparr>derotator_epsilon := dd\<rparr>;
          props = props\<lparr>derotator_phi := dr\<rparr>;
          props = props\<lparr>m3_epsilon := md\<rparr>;
          props = props\<lparr>m3_phi := mr\<rparr>;
          angles = repeat2 angles;
          altitudes = repeat2 altitudes
      in system_loop evaluate (zip (enumerate 0 x) (zip angles altitudes)) props [])"

subsection \<open>The deterministic steps of \<open>fit_model\<close>\<close>

text \<open>
  \<open>fit_model\<close> draws noise and calls an optimiser; the model has its two steps of plain
  arithmetic. The first is the list \<open>stokes_i[str(theta)]\<close> of the initial Stokes vectors
  of the targets at one angle \<open>theta\<close> of the list \<open>hwp\<close>.
\<close>

definition fit_hwp :: vec where
  "fit_hwp = [0, 22.5, 45, 60]"

definition stokes_i :: "real \<Rightarrow> mat" where
  "stokes_i theta =
     (let q = map (\<lambda>a. a * cos (2 * theta)) p;
          u = map (\<lambda>a. a * sin (2 * theta)) p
      in map (\<lambda>(x, y). [1, x, y, 0]) (zip q u))"

text \<open>
  The second is the report: \<open>estimate\<close> has one row of four fitted parameters for each
  angle of \<open>hwp\<close>, and \<open>error\<close> is the array of the four percentages printed. (A
  division by zero gives an infinite float and a warning in numpy, and zero here.)
\<close>

definition derotator_d_i :: real where
  "derotator_d_i = 0.9662"

definition derotator_r_i :: real where
  "derotator_r_i = 186.6"

definition m3_d_i :: real where
  "m3_d_i = 0.9761"

definition m3_r_i :: real where
  "m3_r_i = 186.6"

definition fit_error :: "mat \<Rightarrow> vec" where
  "fit_error estimate =
     (let derotator_d_f = mean (col estimate 0);
          derotator_r_f = mean (col estimate 1);
          m3_d_f = mean (col estimate 2);
          m3_r_f = mean (col estimate 3)
      in map abs [(derotator_d_f - derotator_d_i) / derotator_d_i * 100,
                  (derotator_r_f - derotator_r_i) / derotator_r_f * 100,
                  (m3_d_f - m3_d_i) / m3_d_i * 100,
                  (m3_r_f - m3_r_i) / m3_r_i * 100])"

subsection \<open>Auxiliary definitions for the proofs\<close>

text \<open>
  The two rows that one pass of the loop of \<open>on_sky\<close> appends in the variants on the
  library, and the list that the loop of \<open>system\<close> runs over.
\<close>

definition lib_rows :: "(properties \<Rightarrow> mat) \<Rightarrow> real \<Rightarrow> real \<Rightarrow> mat" where
  "lib_rows evaluate hwp sky =
     [evaluate \<lparr>WollastonPrism_beam = Beam_o, HalfwaveRetarder_theta = hwp, Rotator_pa = sky\<rparr> ! 0,
      evaluate \<lparr>WollastonPrism_beam = Beam_e, HalfwaveRetarder_theta = hwp, Rotator_pa = sky\<rparr> ! 0]"

definition system_zip :: "mat \<Rightarrow> ((nat \<times> vec) \<times> real \<times> real) list" where
  "system_zip x =
     zip (enumerate 0 x)
       (zip (repeat2 (map (\<lambda>(r, d). degrees (arctan (sin r / (cos d * tan keck - sin d * cos r))))
                       (zip rad decd)))
            (repeat2 (map (\<lambda>(r, d). degrees (arcsin (sin keck * sin d + cos keck * cos d * cos r)))
                       (zip rad decd))))"

section \<open>Properties of the Mueller matrices\<close>

lemma upt_4: "[0..<4] = [0, 1, 2, 3::nat]"
  by (simp add: upt_conv_Cons)

lemma m_woll_pos_eq:
  "m_woll_pos = [[1, 1, 0, 0], [1, 1, 0, 0], [0, 0, 0, 0], [0, 0, 0, 0]]"
  by (simp add: m_woll_pos_def m_def)

lemma m_woll_neg_eq:
  "m_woll_neg = [[1, - 1, 0, 0], [- 1, 1, 0, 0], [0, 0, 0, 0], [0, 0, 0, 0]]"
  by (simp add: m_woll_neg_def m_def)

lemma wollaston_eq:
  "wollaston [[I], [Q], [U], [V]] =
     [[[(I + Q) / 2], [(I + Q) / 2], [0], [0]],
      [[(I - Q) / 2], [(Q - I) / 2], [0], [0]]]"
  by (simp add: wollaston_def m_woll_pos_eq m_woll_neg_eq smult_def matmul_w_def
      transpose_w_def col_def dot_def field_simps)

text \<open>
  Claim C3. The rotator \<open>t(a)\<close> is the identity outside the block of the second and third
  components, and there it is the rotation by four times the angle: the entries are
  \<open>cos(4a)\<close>, \<open>sin(4a)\<close>, \<open>-sin(4a)\<close>, \<open>cos(4a)\<close>. At \<open>a = pi/4\<close> the diagonal entry is
  \<open>cos(pi) = -1\<close>, where the convention with twice the angle would give \<open>cos(pi/2) = 0\<close>.
\<close>

theorem t_rotator_convention:
  "t a = [[1, 0, 0, 0],
          [0, cos (4 * a), sin (4 * a), 0],
          [0, - sin (4 * a), cos (4 * a), 0],
          [0, 0, 0, 1]]
   \<and> t (pi / 4) ! 1 ! 1 = - 1 \<and> cos (2 * (pi / 4)) = (0::real)"
  by (simp add: t_def)

text \<open>
  Claim C4. For every Stokes vector \<open>(I, Q, U, V)\<close> the intensities of the two beams that
  \<open>wollaston\<close> returns (the first components of the two returned vectors) add up to the
  input intensity \<open>I\<close>.
\<close>

theorem wollaston_complementary:
  "wollaston [[I], [Q], [U], [V]] ! 0 ! 0 ! 0 + wollaston [[I], [Q], [U], [V]] ! 1 ! 0 ! 0 = I"
  by (simp add: wollaston_eq field_simps)

text \<open>
  Claim C9. For every Stokes vector \<open>(I, Q, U, V)\<close> the positive beam of \<open>wollaston\<close> has
  intensity \<open>0.5 * (I + Q)\<close> and the negative beam \<open>0.5 * (I - Q)\<close>; changing \<open>U\<close> and \<open>V\<close>
  changes neither intensity.
\<close>

theorem wollaston_intensities:
  "wollaston [[I], [Q], [U], [V]] ! 0 ! 0 ! 0 = 0.5 * (I + Q)
   \<and> wollaston [[I], [Q], [U], [V]] ! 1 ! 0 ! 0 = 0.5 * (I - Q)
   \<and> wollaston [[I], [Q], [U'], [V']] ! 0 ! 0 ! 0 = wollaston [[I], [Q], [U], [V]] ! 0 ! 0 ! 0
   \<and> wollaston [[I], [Q], [U'], [V']] ! 1 ! 0 ! 0 = wollaston [[I], [Q], [U], [V]] ! 1 ! 0 ! 0"
  by (simp add: wollaston_eq)

section \<open>The inverse solver of the numeric variant\<close>

subsection \<open>Determinants of small matrices\<close>

lemma upt_2: "[0..<2] = [0, 1::nat]"
  by (simp add: upt_conv_Cons)

lemma upt_3: "[0..<3] = [0, 1, 2::nat]"
  by (simp add: upt_conv_Cons)

lemma det_1: "det [[a]] = a"
  by (simp add: det.simps(2) del_def)

lemma det_2: "det [[a, b], [c, d]] = a * d - b * c"
  by (simp add: det.simps(2) del_def upt_2 det_1)

lemma det_3:
  "det [[a1, a2, a3], [b1, b2, b3], [c1, c2, c3]] =
     a1 * (b2 * c3 - b3 * c2) - a2 * (b1 * c3 - b3 * c1) + a3 * (b1 * c2 - b2 * c1)"
  by (simp add: det.simps(2) del_def upt_3 det_2 algebra_simps)

lemma det_4:
  "det [[a1, a2, a3, a4], [b1, b2, b3, b4], [c1, c2, c3, c4], [d1, d2, d3, d4]] =
       a1 * det [[b2, b3, b4], [c2, c3, c4], [d2, d3, d4]]
     - a2 * det [[b1, b3, b4], [c1, c3, c4], [d1, d3, d4]]
     + a3 * det [[b1, b2, b4], [c1, c2, c4], [d1, d2, d4]]
     - a4 * det [[b1, b2, b3], [c1, c2, c3], [d1, d2, d3]]"
  by (simp add: det.simps(2) del_def upt_4)

lemma det_zero_row:
  "det [[a1, a2, a3, a4], [b1, b2, b3, b4], [c1, c2, c3, c4], [0, 0, 0, 0]] = 0"
  by (simp add: det_4 det_3)

text \<open>
  The model of the inversion is an inversion: the product of a matrix of four rows and
  four columns with the matrix of its cofactors, transposed, is the determinant times
  the identity, so a result of \<open>inv_np\<close> is a right inverse.
\<close>

lemma cofactors_4:
  fixes a1 a2 a3 a4 b1 b2 b3 b4 c1 c2 c3 c4 d1 d2 d3 d4 :: real
  defines "M \<equiv> [[a1, a2, a3, a4], [b1, b2, b3, b4], [c1, c2, c3, c4], [d1, d2, d3, d4]]"
  shows "matmul_w 4 M (adjugate M) = smult (det M) identity4"
  unfolding M_def
  by (simp add: adjugate_def matmul_w_def transpose_w_def col_def dot_def upt_4 minor_def del_def
      det_4 det_3 smult_def identity4_def algebra_simps)

lemma matmul_w_smult_4:
  fixes c :: real
  shows "matmul_w 4 [[a1, a2, a3, a4], [b1, b2, b3, b4], [c1, c2, c3, c4], [d1, d2, d3, d4]]
           (smult c [[x1, x2, x3, x4], [y1, y2, y3, y4], [z1, z2, z3, z4], [w1, w2, w3, w4]])
         = smult c (matmul_w 4 [[a1, a2, a3, a4], [b1, b2, b3, b4], [c1, c2, c3, c4], [d1, d2, d3, d4]]
                     [[x1, x2, x3, x4], [y1, y2, y3, y4], [z1, z2, z3, z4], [w1, w2, w3, w4]])"
  by (simp add: matmul_w_def smult_def transpose_w_def col_def dot_def upt_4 algebra_simps)

lemma inv_np_right_inverse:
  fixes a1 a2 a3 a4 b1 b2 b3 b4 c1 c2 c3 c4 d1 d2 d3 d4 :: real
  defines "M \<equiv> [[a1, a2, a3, a4], [b1, b2, b3, b4], [c1, c2, c3, c4], [d1, d2, d3, d4]]"
  assumes "inv_np M = Inr N"
  shows "matmul_w 4 M N = identity4"
proof -
  from assms have d: "det M \<noteq> 0" and N: "N = smult (1 / det M) (adjugate M)"
    by (auto simp: inv_np_def split: if_splits)
  have "\<exists>x1 x2 x3 x4 y1 y2 y3 y4 z1 z2 z3 z4 w1 w2 w3 w4.
          adjugate M = [[x1, x2, x3, x4], [y1, y2, y3, y4], [z1, z2, z3, z4], [w1, w2, w3, w4]]"
    unfolding M_def by (simp add: adjugate_def upt_4)
  then obtain x1 x2 x3 x4 y1 y2 y3 y4 z1 z2 z3 z4 w1 w2 w3 w4 where
    A: "adjugate M = [[x1, x2, x3, x4], [y1, y2, y3, y4], [z1, z2, z3, z4], [w1, w2, w3, w4]]"
    by blast
  have "matmul_w 4 M (smult (1 / det M) (adjugate M)) = smult (1 / det M) (matmul_w 4 M (adjugate M))"
    unfolding A unfolding M_def by (rule matmul_w_smult_4)
  also have "matmul_w 4 M (adjugate M) = smult (det M) identity4"
    unfolding M_def by (rule cofactors_4)
  also have "smult (1 / det M) (smult (det M) identity4) = identity4"
    using d by (simp add: smult_def identity4_def)
  finally show ?thesis by (simp add: N)
qed

subsection \<open>The rows of the design matrix\<close>

lemma system_matrix_pos_row:
  "system_matrix m_woll_pos hw pa ! 0
     = [1 / 2, cos (4 * hw + 4 * pa) / 2, sin (4 * hw + 4 * pa) / 2, 0]"
  by (simp add: system_matrix_def m_woll_pos_eq t_def smult_def matmul_w_def transpose_w_def
      col_def dot_def upt_4 cos_add sin_add field_simps)

lemma system_matrix_neg_row:
  "system_matrix m_woll_neg hw pa ! 0
     = [1 / 2, - cos (4 * hw + 4 * pa) / 2, - sin (4 * hw + 4 * pa) / 2, 0]"
  by (simp add: system_matrix_def m_woll_neg_eq t_def smult_def matmul_w_def transpose_w_def
      col_def dot_def upt_4 cos_add sin_add field_simps)

lemma on_sky_loop_eq:
  "on_sky_loop vals (i, ms) =
     (i @ concat (map (\<lambda>(i1, i2, hwp, sky). [[i1], [i2]]) vals),
      ms @ concat (map (\<lambda>(i1, i2, hwp, sky).
                          [system_matrix m_woll_pos hwp sky ! 0,
                           system_matrix m_woll_neg hwp sky ! 0]) vals))"
  by (induction vals arbitrary: i ms) (auto simp: system_matrix_def Let_def)

lemma on_sky_loop_V:
  assumes "r \<in> set (snd (on_sky_loop vals ([], [])))"
  shows "r ! 3 = 0"
  using assms by (auto simp: on_sky_loop_eq system_matrix_pos_row system_matrix_neg_row)

subsection \<open>A design matrix with a column of zeros\<close>

lemma col_zero: "\<forall>r\<in>set A. r ! k = 0 \<Longrightarrow> col A k = replicate (length A) 0"
  by (induction A) (auto simp: col_def)

lemma dot_zero_left: "dot (replicate n 0) v = 0"
proof (induction n arbitrary: v)
  case 0
  show ?case by (simp add: dot_def)
next
  case (Suc n)
  then show ?case by (cases v) (simp_all add: dot_def)
qed

lemma dot_zero_right: "dot u (replicate n 0) = 0"
proof (induction n arbitrary: u)
  case 0
  show ?case by (simp add: dot_def)
next
  case (Suc n)
  then show ?case by (cases u) (simp_all add: dot_def)
qed

lemma normal_matrix_eq:
  "matmul_w 4 (transpose_w 4 A) A
     = map (\<lambda>j. map (\<lambda>k. dot (col A j) (col A k)) [0, 1, 2, 3]) [0, 1, 2, 3]"
  by (simp add: matmul_w_def transpose_w_def upt_4)

lemma normal_matrix_singular:
  assumes "\<forall>r\<in>set A. r ! 3 = 0"
  shows "det (matmul_w 4 (transpose_w 4 A) A) = 0"
proof -
  have "col A 3 = replicate (length A) 0"
    using assms by (rule col_zero)
  then show ?thesis
    by (simp add: normal_matrix_eq dot_zero_left dot_zero_right det_zero_row)
qed

lemma normal_matrix_kernel:
  assumes "\<forall>r\<in>set A. r ! 3 = 0"
  shows "matmul_w 1 (matmul_w 4 (transpose_w 4 A) A) [[0], [0], [0], [1]] = [[0], [0], [0], [0]]"
proof -
  have "col A 3 = replicate (length A) 0"
    using assms by (rule col_zero)
  then have "matmul_w 4 (transpose_w 4 A) A
      = [[dot (col A 0) (col A 0), dot (col A 0) (col A 1), dot (col A 0) (col A 2), 0],
         [dot (col A 1) (col A 0), dot (col A 1) (col A 1), dot (col A 1) (col A 2), 0],
         [dot (col A 2) (col A 0), dot (col A 2) (col A 1), dot (col A 2) (col A 2), 0],
         [0, 0, 0, 0]]"
    by (simp add: normal_matrix_eq dot_zero_left dot_zero_right)
  then show ?thesis
    by (simp add: matmul_w_def transpose_w_def col_def dot_def)
qed

lemma on_sky_fails: "on_sky vals = Inl LinAlgError"
proof -
  obtain i ms where loop: "on_sky_loop vals ([], []) = (i, ms)"
    by (cases "on_sky_loop vals ([], [])")
  have "\<forall>r\<in>set ms. r ! 3 = 0"
    using on_sky_loop_V [of _ vals] loop by simp
  then have "det (matmul_w 4 (transpose_w 4 ms) ms) = 0"
    by (rule normal_matrix_singular)
  then show ?thesis
    by (simp add: on_sky_def loop inv_np_def)
qed

lemma matmul_w_row0: "X \<noteq> [] \<Longrightarrow> matmul_w w X Y ! 0 = map (dot (X ! 0)) (transpose_w w Y)"
  by (cases X) (simp_all add: matmul_w_def)

lemma system_matrix_nonempty:
  "system_matrix m_woll_pos hw pa \<noteq> [] \<and> system_matrix m_woll_neg hw pa \<noteq> []"
  by (simp add: system_matrix_def smult_def matmul_w_def m_woll_pos_eq m_woll_neg_eq)

lemma forward_eq:
  "forward [[I], [Q], [U], [V]] hw pa =
     ((I + Q * cos (4 * hw + 4 * pa) + U * sin (4 * hw + 4 * pa)) / 2,
      (I - Q * cos (4 * hw + 4 * pa) - U * sin (4 * hw + 4 * pa)) / 2)"
  by (simp add: forward_def matmul_w_row0 system_matrix_nonempty system_matrix_pos_row
      system_matrix_neg_row transpose_w_def col_def dot_def field_simps)

lemma cos_sin_3pi2: "cos (3 * pi / 2) = 0" "sin (3 * pi / 2) = - 1"
  using cos_3over2_pi sin_3over2_pi by (simp_all add: field_simps)

text \<open>
  Claim C1. The round trip fails: the claim has \<open>on_sky\<close> return the Stokes vector
  \<open>(1, 0.1, 0.05, 0)\<close> from the intensities of the forward model at the angles 0, 45,
  22.5 and 67.5 degrees of the half-wave plate and the parallactic angle 0. The forward
  model gives the intensities below, and on these four samples \<open>on_sky\<close> returns no
  vector: the normal matrix is singular and the inversion raises \<open>LinAlgError\<close>.
\<close>

theorem on_sky_round_trip_fails:
  "forward [[1], [0.1], [0.05], [0]] (radians 0) (radians 0) = (0.55, 0.45)
   \<and> forward [[1], [0.1], [0.05], [0]] (radians 45) (radians 0) = (0.45, 0.55)
   \<and> forward [[1], [0.1], [0.05], [0]] (radians 22.5) (radians 0) = (0.525, 0.475)
   \<and> forward [[1], [0.1], [0.05], [0]] (radians 67.5) (radians 0) = (0.475, 0.525)
   \<and> on_sky [(0.55, 0.45, radians 0, radians 0), (0.45, 0.55, radians 45, radians 0),
              (0.525, 0.475, radians 22.5, radians 0), (0.475, 0.525, radians 67.5, radians 0)]
       = Inl LinAlgError"
  by (simp add: on_sky_fails forward_eq radians_def cos_sin_3pi2)

section \<open>The inverse solver of the variants on the library\<close>

lemma properties_set_all:
  "(props :: properties)\<lparr>HalfwaveRetarder_theta := a, Rotator_pa := b, WollastonPrism_beam := c\<rparr>
     = \<lparr>WollastonPrism_beam = c, HalfwaveRetarder_theta = a, Rotator_pa = b\<rparr>"
  by (cases props) simp

lemma on_sky_lib_loop_eq:
  "snd (on_sky_lib_loop evaluate vals (props, i, ms)) =
     (i @ concat (map (\<lambda>(i1, i2, hwp, sky). [[i1], [i2]]) vals),
      ms @ concat (map (\<lambda>(i1, i2, hwp, sky). lib_rows evaluate hwp sky) vals))"
  by (induction vals arbitrary: props i ms) (auto simp: Let_def properties_set_all lib_rows_def)

lemma length_concat_pairs:
  "length (concat (map (\<lambda>(i1, i2, hwp, sky). [f i1 i2 hwp sky, g i1 i2 hwp sky]) vals))
     = 2 * length vals"
  by (induction vals) auto

subsection \<open>A design matrix of rank two\<close>

lemma dot_col_pairs:
  "dot (col (concat (map (\<lambda>x. [u, v]) vals)) j) (col (concat (map (\<lambda>x. [u, v]) vals)) k)
     = real (length vals) * (u ! j * u ! k + v ! j * v ! k)"
  by (induction vals) (simp_all add: dot_def col_def algebra_simps)

lemma det_rank_2:
  fixes n u0 u1 u2 u3 v0 v1 v2 v3 :: real
  shows "det [[n * (u0 * u0 + v0 * v0), n * (u0 * u1 + v0 * v1),
               n * (u0 * u2 + v0 * v2), n * (u0 * u3 + v0 * v3)],
              [n * (u1 * u0 + v1 * v0), n * (u1 * u1 + v1 * v1),
               n * (u1 * u2 + v1 * v2), n * (u1 * u3 + v1 * v3)],
              [n * (u2 * u0 + v2 * v0), n * (u2 * u1 + v2 * v1),
               n * (u2 * u2 + v2 * v2), n * (u2 * u3 + v2 * v3)],
              [n * (u3 * u0 + v3 * v0), n * (u3 * u1 + v3 * v1),
               n * (u3 * u2 + v3 * v2), n * (u3 * u3 + v3 * v3)]] = 0"
  by (simp add: det_4 det_3 algebra_simps)

lemma normal_rank_2:
  "det (matmul_w 4 (transpose_w 4 (concat (map (\<lambda>x. [u, v]) vals)))
                  (concat (map (\<lambda>x. [u, v]) vals))) = 0"
  by (simp only: normal_matrix_eq list.map dot_col_pairs det_rank_2)

lemma on_sky_lib_same_angles:
  assumes "\<forall>v\<in>set vals. fst (snd (snd v)) = hw \<and> snd (snd (snd v)) = pa"
  shows "det (matmul_w 4 (transpose_w 4 (snd (snd (on_sky_lib_loop evaluate vals (props, [], [])))))
                  (snd (snd (on_sky_lib_loop evaluate vals (props, [], []))))) = 0
         \<and> on_sky_lib evaluate props vals = Inl LinAlgError"
proof -
  obtain props' i ms where loop: "on_sky_lib_loop evaluate vals (props, [], []) = (props', i, ms)"
    by (cases "on_sky_lib_loop evaluate vals (props, [], [])")
  have rows: "map (\<lambda>(i1, i2, hwp, sky). lib_rows evaluate hwp sky) vals
      = map (\<lambda>x. lib_rows evaluate hw pa) vals"
    using assms by (intro map_cong) auto
  have "ms = concat (map (\<lambda>(i1, i2, hwp, sky). lib_rows evaluate hwp sky) vals)"
    using on_sky_lib_loop_eq [of evaluate vals props "[]" "[]"] loop by simp
  then have "ms = concat (map (\<lambda>x. lib_rows evaluate hw pa) vals)"
    by (simp only: rows)
  then have "det (matmul_w 4 (transpose_w 4 ms) ms) = 0"
    by (simp only: lib_rows_def normal_rank_2)
  then show ?thesis
    by (simp add: on_sky_lib_def loop inv_np_def)
qed

lemma on_sky_lib_degenerate:
  assumes "length vals < 2 \<or> (\<forall>v\<in>set vals. fst (snd (snd v)) = hw \<and> snd (snd (snd v)) = pa)"
  shows "det (matmul_w 4 (transpose_w 4 (snd (snd (on_sky_lib_loop evaluate vals (props, [], [])))))
                  (snd (snd (on_sky_lib_loop evaluate vals (props, [], []))))) = 0
         \<and> on_sky_lib evaluate props vals = Inl LinAlgError"
proof (cases vals)
  case Nil
  then show ?thesis
    using on_sky_lib_same_angles [of "[]" 0 0 evaluate props] by simp
next
  case (Cons v vs)
  show ?thesis
  proof (cases "length vals < 2")
    case True
    with Cons have "vals = [v]" by simp
    then show ?thesis
      using on_sky_lib_same_angles [of "[v]" "fst (snd (snd v))" "snd (snd (snd v))" evaluate props]
      by simp
  next
    case False
    with assms show ?thesis
      using on_sky_lib_same_angles [of vals hw pa evaluate props] by simp
  qed
qed

text \<open>
  The inversion can succeed in the model: with an evaluation whose first rows over two
  samples are the four unit vectors (not an optical system, only a design matrix of
  full rank), the normal matrix is the identity and \<open>on_sky\<close> returns the measured
  intensities.
\<close>

lemma inv_np_identity4: "inv_np identity4 = Inr identity4"
  by (simp add: inv_np_def identity4_def det_4 det_3 adjugate_def minor_def del_def smult_def upt_4)

lemma on_sky_lib_full_rank_example:
  fixes i1 i2 i3 i4 :: real
  defines "evaluate \<equiv> (\<lambda>q. if HalfwaveRetarder_theta q = 0
        then (if WollastonPrism_beam q = Beam_o then [[1, 0, 0, 0]] else [[0, 1, 0, 0]])
        else (if WollastonPrism_beam q = Beam_o then [[0, 0, 1, 0]] else [[0, 0, 0, 1]]))"
  shows "on_sky_lib evaluate props [(i1, i2, 0, 0), (i3, i4, 1, 0)] = Inr [[i1], [i2], [i3], [i4]]"
proof -
  have loop: "snd (on_sky_lib_loop evaluate [(i1, i2, 0, 0), (i3, i4, 1, 0)] (props, [], []))
      = ([[i1], [i2], [i3], [i4]], identity4)"
    by (simp add: on_sky_lib_loop_eq lib_rows_def evaluate_def identity4_def)
  have n: "matmul_w 4 (transpose_w 4 identity4) identity4 = identity4"
    by (simp add: matmul_w_def transpose_w_def col_def dot_def upt_4 identity4_def)
  have r: "matmul_w 1 (matmul_w 4 identity4 (transpose_w 4 identity4)) [[i1], [i2], [i3], [i4]]
      = [[i1], [i2], [i3], [i4]]"
    by (simp add: matmul_w_def transpose_w_def col_def dot_def upt_4 identity4_def)
  have len: "length identity4 = 4"
    by (simp add: identity4_def)
  obtain q where L: "on_sky_lib_loop evaluate [(i1, i2, 0, 0), (i3, i4, 1, 0)] (props, [], [])
      = (q, [[i1], [i2], [i3], [i4]], identity4)"
    using loop
    by (cases "on_sky_lib_loop evaluate [(i1, i2, 0, 0), (i3, i4, 1, 0)] (props, [], [])") auto
  show ?thesis
    unfolding on_sky_lib_def L
    by (simp only: Let_def prod.case n inv_np_identity4 sum.case len r)
qed

section \<open>The algorithm of the inverse solver and its failure\<close>

text \<open>
  Claim C2, amended. For every list of samples, in the numeric variant and in the
  variants on the library, the loop of \<open>on_sky\<close> builds the vector \<open>b\<close> of the measured
  intensities, the positive beam and then the negative beam of every sample in order,
  and the design matrix \<open>A\<close> with two rows for every sample, the first row of the system
  matrix of beam \<open>o\<close> and then that of beam \<open>e\<close> at the angles of the sample. The result
  is the value of \<open>inv(A\<^sup>T A) A\<^sup>T b\<close>: the error of the inversion when the normal matrix
  is singular, and the product with the inverse otherwise.
\<close>

theorem on_sky_normal_equations:
  "on_sky_loop vals ([], [])
     = (concat (map (\<lambda>(i1, i2, hwp, sky). [[i1], [i2]]) vals),
        concat (map (\<lambda>(i1, i2, hwp, sky). [system_matrix m_woll_pos hwp sky ! 0,
                                            system_matrix m_woll_neg hwp sky ! 0]) vals))
   \<and> snd (on_sky_lib_loop evaluate vals (props, [], []))
     = (concat (map (\<lambda>(i1, i2, hwp, sky). [[i1], [i2]]) vals),
        concat (map (\<lambda>(i1, i2, hwp, sky).
          [evaluate \<lparr>WollastonPrism_beam = Beam_o, HalfwaveRetarder_theta = hwp, Rotator_pa = sky\<rparr> ! 0,
           evaluate \<lparr>WollastonPrism_beam = Beam_e, HalfwaveRetarder_theta = hwp, Rotator_pa = sky\<rparr> ! 0])
          vals))
   \<and> length (snd (on_sky_loop vals ([], []))) = 2 * length vals
   \<and> length (fst (on_sky_loop vals ([], []))) = 2 * length vals
   \<and> length (snd (snd (on_sky_lib_loop evaluate vals (props, [], [])))) = 2 * length vals
   \<and> length (fst (snd (on_sky_lib_loop evaluate vals (props, [], [])))) = 2 * length vals
   \<and> on_sky vals =
        (let (b, A) = on_sky_loop vals ([], [])
         in case inv_np (matmul_w 4 (transpose_w 4 A) A) of
              Inl e \<Rightarrow> Inl e
            | Inr n \<Rightarrow> Inr (matmul_w 1 (matmul_w (length A) n (transpose_w 4 A)) b))
   \<and> on_sky_lib evaluate props vals =
        (let (b, A) = snd (on_sky_lib_loop evaluate vals (props, [], []))
         in case inv_np (matmul_w 4 (transpose_w 4 A) A) of
              Inl e \<Rightarrow> Inl e
            | Inr n \<Rightarrow> Inr (matmul_w 1 (matmul_w (length A) n (transpose_w 4 A)) b))"
proof -
  have lib: "on_sky_lib evaluate props vals =
        (let (b, A) = snd (on_sky_lib_loop evaluate vals (props, [], []))
         in case inv_np (matmul_w 4 (transpose_w 4 A) A) of
              Inl e \<Rightarrow> Inl e
            | Inr n \<Rightarrow> Inr (matmul_w 1 (matmul_w (length A) n (transpose_w 4 A)) b))"
    by (cases "on_sky_lib_loop evaluate vals (props, [], [])") (simp add: on_sky_lib_def)
  have man: "on_sky vals =
        (let (b, A) = on_sky_loop vals ([], [])
         in case inv_np (matmul_w 4 (transpose_w 4 A) A) of
              Inl e \<Rightarrow> Inl e
            | Inr n \<Rightarrow> Inr (matmul_w 1 (matmul_w (length A) n (transpose_w 4 A)) b))"
    by (simp add: on_sky_def)
  have "on_sky_loop vals ([], [])
     = (concat (map (\<lambda>(i1, i2, hwp, sky). [[i1], [i2]]) vals),
        concat (map (\<lambda>(i1, i2, hwp, sky). [system_matrix m_woll_pos hwp sky ! 0,
                                            system_matrix m_woll_neg hwp sky ! 0]) vals))"
    by (simp add: on_sky_loop_eq)
  moreover have "snd (on_sky_lib_loop evaluate vals (props, [], []))
     = (concat (map (\<lambda>(i1, i2, hwp, sky). [[i1], [i2]]) vals),
        concat (map (\<lambda>(i1, i2, hwp, sky).
          [evaluate \<lparr>WollastonPrism_beam = Beam_o, HalfwaveRetarder_theta = hwp, Rotator_pa = sky\<rparr> ! 0,
           evaluate \<lparr>WollastonPrism_beam = Beam_e, HalfwaveRetarder_theta = hwp, Rotator_pa = sky\<rparr> ! 0])
          vals))"
    by (simp add: on_sky_lib_loop_eq lib_rows_def)
  moreover have "length (snd (on_sky_loop vals ([], []))) = 2 * length vals"
    by (simp add: on_sky_loop_eq length_concat_pairs)
  moreover have "length (fst (on_sky_loop vals ([], []))) = 2 * length vals"
    by (simp add: on_sky_loop_eq length_concat_pairs)
  moreover have "length (snd (snd (on_sky_lib_loop evaluate vals (props, [], [])))) = 2 * length vals"
    by (simp add: on_sky_lib_loop_eq lib_rows_def length_concat_pairs)
  moreover have "length (fst (snd (on_sky_lib_loop evaluate vals (props, [], [])))) = 2 * length vals"
    by (simp add: on_sky_lib_loop_eq length_concat_pairs)
  ultimately show ?thesis
    using man lib by (intro conjI)
qed

text \<open>
  The claim as it is written fails on a list of one sample, which is not empty: \<open>on_sky\<close>
  returns no vector there.
\<close>

theorem on_sky_returns_counterexample:
  "[(0.55, 0.45, 0, 0)] \<noteq> ([] :: sample list) \<and> \<not> (\<exists>x. on_sky [(0.55, 0.45, 0, 0)] = Inr x)"
  by (simp add: on_sky_fails)

text \<open>
  Claim C5. When the list has fewer than two samples, and when all its samples have the
  same angle of the half-wave plate and the same parallactic angle, the normal matrix
  \<open>A\<^sup>T A\<close> is singular (its determinant is zero) and \<open>on_sky\<close> fails with the error of the
  inversion. This holds in the numeric variant, where the normal matrix moreover sends
  the vector \<open>(0, 0, 0, 1)\<close> to zero, and in the variants on the library, whatever the
  library's evaluation of the system is.
\<close>

theorem on_sky_degenerate_fails:
  assumes "length vals < 2 \<or> (\<forall>v\<in>set vals. fst (snd (snd v)) = hw \<and> snd (snd (snd v)) = pa)"
  shows "det (matmul_w 4 (transpose_w 4 (snd (on_sky_loop vals ([], []))))
                 (snd (on_sky_loop vals ([], [])))) = 0
       \<and> matmul_w 1 (matmul_w 4 (transpose_w 4 (snd (on_sky_loop vals ([], []))))
                       (snd (on_sky_loop vals ([], [])))) [[0], [0], [0], [1]]
           = [[0], [0], [0], [0]]
       \<and> on_sky vals = Inl LinAlgError
       \<and> det (matmul_w 4 (transpose_w 4 (snd (snd (on_sky_lib_loop evaluate vals (props, [], [])))))
                  (snd (snd (on_sky_lib_loop evaluate vals (props, [], []))))) = 0
       \<and> on_sky_lib evaluate props vals = Inl LinAlgError"
proof -
  have V: "\<forall>r\<in>set (snd (on_sky_loop vals ([], []))). r ! 3 = 0"
    using on_sky_loop_V by blast
  show ?thesis
    using normal_matrix_singular [OF V] normal_matrix_kernel [OF V] on_sky_fails [of vals]
      on_sky_lib_degenerate [OF assms, of evaluate props]
    by (intro conjI) simp_all
qed

theorem on_sky_degenerate_fails_witness:
  "on_sky [(0.55, 0.45, pi / 8, 0), (0.5, 0.5, pi / 8, 0), (0.6, 0.4, pi / 8, 0)] = Inl LinAlgError
   \<and> on_sky_lib (\<lambda>q. identity4) \<lparr>WollastonPrism_beam = Beam_o, HalfwaveRetarder_theta = 0, Rotator_pa = 0\<rparr>
        [(0.55, 0.45, pi / 8, 0), (0.5, 0.5, pi / 8, 0), (0.6, 0.4, pi / 8, 0)] = Inl LinAlgError
   \<and> on_sky [(0.55, 0.45, pi / 8, 0)] = Inl LinAlgError
   \<and> on_sky [] = Inl LinAlgError"
  using on_sky_degenerate_fails [of "[(0.55, 0.45, pi / 8, 0), (0.5, 0.5, pi / 8, 0), (0.6, 0.4, pi / 8, 0)]"
      "pi / 8" 0 "\<lambda>q. identity4"
      "\<lparr>WollastonPrism_beam = Beam_o, HalfwaveRetarder_theta = 0, Rotator_pa = 0\<rparr>"]
    on_sky_degenerate_fails [of "[(0.55, 0.45, pi / 8, 0)]" 0 0]
    on_sky_degenerate_fails [of "[]" 0 0]
  by simp

section \<open>The units of the angles\<close>

text \<open>
  Claim C6. In the variants on the library, option b of \<open>main\<close> asks for the two angles
  in degrees, converts them with \<open>math.radians\<close> (\<open>np.radians\<close>) and passes them to
  \<open>on_sky\<close>, which stores them into the property \<open>theta\<close> of the half-wave plate and the
  property \<open>pa\<close> of the rotator: for the angles 45 and 90 degrees typed in, the values
  stored are \<open>pi/4\<close> and \<open>pi/2\<close>, which are the angles in radians, not in degrees.
\<close>

theorem main_b_stores_radians:
  "HalfwaveRetarder_theta
      (fst (on_sky_lib_loop evaluate (main_b_values [(0.55, 0.45, 45, 90)]) (props, [], [])))
     = pi / 4
   \<and> Rotator_pa
      (fst (on_sky_lib_loop evaluate (main_b_values [(0.55, 0.45, 45, 90)]) (props, [], [])))
     = pi / 2
   \<and> pi / 4 \<noteq> (45 :: real) \<and> pi / 2 \<noteq> (90 :: real)"
proof -
  have "pi < 4" by (rule pi_less_4)
  then have "pi / 4 \<noteq> (45 :: real)" "pi / 2 \<noteq> (90 :: real)" by simp_all
  then show ?thesis
    by (simp add: main_b_values_def radians_def Let_def)
qed

section \<open>The calibration\<close>

lemma fit_error_eq:
  "fit_error estimate =
     [\<bar>(mean (col estimate 0) - derotator_d_i) / derotator_d_i * 100\<bar>,
      \<bar>(mean (col estimate 1) - derotator_r_i) / mean (col estimate 1) * 100\<bar>,
      \<bar>(mean (col estimate 2) - m3_d_i) / m3_d_i * 100\<bar>,
      \<bar>(mean (col estimate 3) - m3_r_i) / m3_r_i * 100\<bar>]"
  by (simp add: fit_error_def Let_def)

text \<open>
  Claim C7. The percentage reported for the retardance of the derotator is not the
  deviation relative to the known value: when the four estimates of the retardance are
  93.3 (and the other parameters are estimated exactly), their mean is 93.3 and the
  report is 100 percent, where the deviation from the known value 186.6, relative to
  it, is 50 percent.
\<close>

theorem fit_error_derotator_retardance:
  "fit_error [[0.9662, 93.3, 0.9761, 186.6], [0.9662, 93.3, 0.9761, 186.6],
              [0.9662, 93.3, 0.9761, 186.6], [0.9662, 93.3, 0.9761, 186.6]] = [0, 100, 0, 0]
   \<and> mean (col [[0.9662, 93.3, 0.9761, 186.6], [0.9662, 93.3, 0.9761, 186.6],
                  [0.9662, 93.3, 0.9761, 186.6], [0.9662, 93.3, 0.9761, 186.6]] 1) = 93.3
   \<and> \<bar>(93.3 - derotator_r_i) / derotator_r_i * 100\<bar> = 50"
  by (simp add: fit_error_def mean_def col_def derotator_d_i_def derotator_r_i_def m3_d_i_def
      m3_r_i_def)

text \<open>
  Claim C8. For every angle \<open>theta\<close> of the list \<open>hwp\<close> of the fitter and every target
  \<open>k\<close> of the catalogue, with polarization fraction \<open>p[k]\<close>, the initial Stokes vector is
  \<open>(1, p[k] cos(2 theta), p[k] sin(2 theta), 0)\<close>; there is one vector for each target.
  (The cosine and sine are applied to the number \<open>2 theta\<close> as it stands.)
\<close>

theorem stokes_i_components:
  assumes "theta \<in> set fit_hwp" and "k < length p"
  shows "length (stokes_i theta) = length p
         \<and> stokes_i theta ! k = [1, p ! k * cos (2 * theta), p ! k * sin (2 * theta), 0]"
  using assms by (simp add: stokes_i_def Let_def p_def nth_Cons split: nat.splits)

theorem stokes_i_components_witness:
  "stokes_i 0 ! 0 = [1, 0.0061, 0, 0]
   \<and> stokes_i 22.5 ! 2 = [1, 0.0157 * cos 45, 0.0157 * sin 45, 0]"
  using stokes_i_components [of 0 0] stokes_i_components [of "22.5" 2]
  by (simp add: fit_hwp_def p_def)

subsection \<open>The length of the result of \<open>system\<close>\<close>

lemma zip_take_right: "zip (take (length ys) xs) ys = zip xs ys"
proof (induction xs arbitrary: ys)
  case Nil
  show ?case by simp
next
  case (Cons a xs)
  then show ?case by (cases ys) simp_all
qed

lemma enumerate_take: "enumerate n (take k xs) = take k (enumerate n xs)"
  by (simp add: enumerate_eq_zip take_zip min_def)

lemma repeat2_length: "length (repeat2 xs) = 2 * length xs"
  by (induction xs) (simp_all add: repeat2_def)

lemma system_loop_returns:
  assumes "\<forall>e\<in>set zs. length (snd (fst e)) = 4"
  shows "\<exists>I' props'. system_loop evaluate zs props I = Inr (I', props')"
  using assms
proof (induction zs arbitrary: props I)
  case Nil
  show ?case by simp
next
  case (Cons e zs)
  obtain n stokes pa alt where e: "e = ((n, stokes), pa, alt)"
    by (cases e) auto
  from Cons.prems e have len: "length stokes = 4" by simp
  from Cons.prems have rest: "\<forall>e\<in>set zs. length (snd (fst e)) = 4" by simp
  show ?case
    by (simp add: e len reshape_4_1_def Let_def Cons.IH [OF rest])
qed

lemma system_loop_length:
  assumes "system_loop evaluate zs props I = Inr (I', props')"
  shows "length I' = length I + length zs"
  using assms
proof (induction zs arbitrary: props I)
  case Nil
  then show ?case by simp
next
  case (Cons e zs)
  obtain n stokes pa alt where e: "e = ((n, stokes), pa, alt)"
    by (cases e) auto
  show ?case
  proof (cases "length stokes = 4")
    case False
    with Cons.prems show ?thesis by (simp add: e reshape_4_1_def Let_def)
  next
    case True
    with Cons.prems show ?thesis
      by (cases "n mod 2 = 0") (auto simp: e reshape_4_1_def Let_def dest!: Cons.IH)
  qed
qed

lemma system_eq:
  "system evaluate props x dd dr md mr =
     system_loop evaluate (system_zip x)
       (props\<lparr>derotator_epsilon := dd, derotator_phi := dr, m3_epsilon := md, m3_phi := mr\<rparr>) []"
  by (simp add: system_def system_zip_def Let_def)

lemma system_zip_length: "length (system_zip x) = min (length x) 6"
  by (simp add: system_zip_def repeat2_length rad_def decd_def ra_def dec_def)

lemma system_zip_take: "system_zip (take 6 x) = system_zip x"
proof -
  let ?ys = "zip (repeat2 (map (\<lambda>(r, d). degrees (arctan (sin r / (cos d * tan keck - sin d * cos r))))
                            (zip rad decd)))
                 (repeat2 (map (\<lambda>(r, d). degrees (arcsin (sin keck * sin d + cos keck * cos d * cos r)))
                            (zip rad decd)))"
  have "length ?ys = 6"
    by (simp add: repeat2_length rad_def decd_def ra_def dec_def)
  then have "zip (take 6 (enumerate 0 x)) ?ys = zip (enumerate 0 x) ?ys"
    using zip_take_right [of ?ys "enumerate 0 x"] by simp
  then show ?thesis
    by (simp add: system_zip_def enumerate_take)
qed

lemma system_zip_rows:
  assumes "e \<in> set (system_zip x)"
  shows "snd (fst e) \<in> set (take 6 x)"
proof -
  obtain n stokes rest where e: "e = ((n, stokes), rest)"
    by (cases e) auto
  from assms have "e \<in> set (system_zip (take 6 x))"
    by (simp add: system_zip_take)
  then have "(n, stokes) \<in> set (enumerate 0 (take 6 x))"
    unfolding system_zip_def e by (rule set_zip_leftD)
  then have "stokes \<in> set (take 6 x)"
    unfolding enumerate_eq_zip by (rule set_zip_rightD)
  then show ?thesis by (simp add: e)
qed

text \<open>
  Claim C10. When the first six rows of \<open>x\<close> (all its rows, when it has fewer) have four
  entries each, as the rows of an array of Stokes vectors do, \<open>system\<close> raises no error
  and returns a list of \<open>min(len(x), 6)\<close> intensities; the rows of \<open>x\<close> after the sixth
  play no part in the result.
\<close>

theorem system_length:
  assumes "\<forall>r\<in>set (take 6 x). length r = 4"
  shows "(\<exists>I props'. system evaluate props x dd dr md mr = Inr (I, props')
            \<and> length I = min (length x) 6)
         \<and> system evaluate props x dd dr md mr = system evaluate props (take 6 x) dd dr md mr"
proof -
  have "\<forall>e\<in>set (system_zip x). length (snd (fst e)) = 4"
    using assms system_zip_rows by blast
  from system_loop_returns [OF this]
  obtain I props' where r: "system evaluate props x dd dr md mr = Inr (I, props')"
    unfolding system_eq by blast
  then have "length I = min (length x) 6"
    unfolding system_eq using system_loop_length system_zip_length by fastforce
  with r show ?thesis
    by (simp add: system_eq system_zip_take)
qed

theorem system_length_witness:
  "(\<exists>I props'.
      system (\<lambda>q. identity4)
        \<lparr>WollastonPrism_beam = Beam_o, HalfwaveRetarder_theta = 0, Rotator_pa = 0,
         derotator_theta = 0, derotator_epsilon = 0, derotator_phi = 0,
         m3_theta = 0, m3_epsilon = 0, m3_phi = 0\<rparr>
        [[1, 0.0061, 0, 0], [1, 0.0061, 0, 0], [1, 0.0142, 0, 0], [1, 0.0142, 0, 0],
         [1, 0.0157, 0, 0], [1, 0.0157, 0, 0], [1, 0.5, 0, 0], [1, 0.5, 0, 0]]
        0.9662 186.6 0.9761 186.6 = Inr (I, props')
      \<and> length I = 6)
   \<and> (\<exists>I props'.
      system (\<lambda>q. identity4)
        \<lparr>WollastonPrism_beam = Beam_o, HalfwaveRetarder_theta = 0, Rotator_pa = 0,
         derotator_theta = 0, derotator_epsilon = 0, derotator_phi = 0,
         m3_theta = 0, m3_epsilon = 0, m3_phi = 0\<rparr>
        [[1, 0.0061, 0, 0], [1, 0.0061, 0, 0]]
        0.9662 186.6 0.9761 186.6 = Inr (I, props')
      \<and> length I = 2)"
  using system_length [THEN conjunct1,
      of "[[1, 0.0061, 0, 0], [1, 0.0061, 0, 0], [1, 0.0142, 0, 0], [1, 0.0142, 0, 0],
         [1, 0.0157, 0, 0], [1, 0.0157, 0, 0], [1, 0.5, 0, 0], [1, 0.5, 0, 0]]"
      "\<lambda>q. identity4"
      "\<lparr>WollastonPrism_beam = Beam_o, HalfwaveRetarder_theta = 0, Rotator_pa = 0,
         derotator_theta = 0, derotator_epsilon = 0, derotator_phi = 0,
         m3_theta = 0, m3_epsilon = 0, m3_phi = 0\<rparr>" "0.9662" "186.6" "0.9761" "186.6"]
    system_length [THEN conjunct1, of "[[1, 0.0061, 0, 0], [1, 0.0061, 0, 0]]"
      "\<lambda>q. identity4"
      "\<lparr>WollastonPrism_beam = Beam_o, HalfwaveRetarder_theta = 0, Rotator_pa = 0,
         derotator_theta = 0, derotator_epsilon = 0, derotator_phi = 0,
         m3_theta = 0, m3_epsilon = 0, m3_phi = 0\<rparr>" "0.9662" "186.6" "0.9761" "186.6"]
  by (auto simp: numeral_eq_Suc)

end
